theory Spec2Isabelle
  imports Complex_Main
begin

section \<open>Python values shared by both engines\<close>

text \<open>
  A Python \<open>str\<close> whose characters matter (transcript and token text, speaker labels) is a
  list of Unicode code points. Identifiers that are only compared and concatenated (criterion
  ids, messages) are HOL strings.
\<close>

type_synonym pystr = "nat list"

definition ascii :: "string \<Rightarrow> pystr" where
  "ascii s = map of_char s"

text \<open>
  \<open>round(x, 2)\<close>: rounding to two decimals, ties to the even neighbour. Python rounds the
  binary float; the model rounds the exact real number, so float representation error is
  outside the model.
\<close>

definition py_round2 :: "real \<Rightarrow> real" where
  "py_round2 x =
     (let y = x * 100; f = \<lfloor>y\<rfloor>; d = y - of_int f
      in of_int (if d < 1 / 2 then f else if 1 / 2 < d then f + 1
                 else if even f then f else f + 1) / 100)"

section \<open>Score compilation engine (api/scoring\_v2.py)\<close>

subsection \<open>Rubric and oracle payload\<close>

text \<open>
  A dictionary read with \<open>.get(key, default)\<close> is a record of optional fields: \<open>None\<close> is the
  absent key. The oracle payload (\<open>scoring_results\<close>) maps criterion ids to judgments; the
  prompt demands an integer \<open>score\<close>, and the model types it so.
\<close>

record judgement =
  j_score :: "int option"
  j_rationale :: "string option"
  j_evidence :: "string list option"
  j_validation_notes :: "string option"

type_synonym scoring_results = "string \<rightharpoonup> judgement"

record sub_parameter =
  sp_id :: "string option"
  sp_name :: "string option"
  sp_max_points :: "int option"

record category =
  cat_id :: "string option"
  cat_name :: "string option"
  cat_max_points :: "int option"
  cat_sub_parameters :: "sub_parameter list option"

record rubric =
  r_title :: "string option"
  r_total_points :: "int option"
  r_categories :: "category list option"

definition get_or :: "'a option \<Rightarrow> 'a \<Rightarrow> 'a" where
  "get_or v d = (case v of None \<Rightarrow> d | Some x \<Rightarrow> x)"

definition empty_judgment :: judgement where
  "empty_judgment =
     \<lparr>j_score = None, j_rationale = None, j_evidence = None, j_validation_notes = None\<rparr>"

text \<open>\<open>result = scoring_results.get(param_id, {})\<close>\<close>

definition get_result :: "scoring_results \<Rightarrow> string option \<Rightarrow> judgement" where
  "get_result sr pid =
     (case pid of None \<Rightarrow> empty_judgment
      | Some i \<Rightarrow> (case sr i of None \<Rightarrow> empty_judgment | Some r \<Rightarrow> r))"

text \<open>\<open>param_score = result.get('score', 0)\<close>\<close>

definition raw_score :: "scoring_results \<Rightarrow> string option \<Rightarrow> int" where
  "raw_score sr pid = get_or (j_score (get_result sr pid)) 0"

subsection \<open>check\_fatal\_parameters\<close>

definition fatal_param_mapping :: "(string \<times> string) list" where
  "fatal_param_mapping =
     [(''brand_intro'', ''No introduction of brand''),
      (''project_knowledge_accuracy'', ''Wrong Information / False Commitment''),
      (''professional'', ''No Professional Behaviour''),
      (''tone_voice_modulation'', ''Avoid being Rude and Unprofessional'')]"

fun check_fatal_loop ::
  "scoring_results \<Rightarrow> (string \<times> string) list \<Rightarrow> string list \<Rightarrow> string list" where
  "check_fatal_loop sr [] failed_fatal_params = failed_fatal_params"
| "check_fatal_loop sr ((param_id, param_description) # rest) failed_fatal_params =
     (let param_score = raw_score sr (Some param_id)
      in if param_score = - 1 then check_fatal_loop sr rest failed_fatal_params
         else if param_score = 0
         then check_fatal_loop sr rest
                (failed_fatal_params @ [param_description @ '' ('' @ param_id @ '')''])
         else check_fatal_loop sr rest failed_fatal_params)"

definition check_fatal_parameters :: "scoring_results \<Rightarrow> rubric \<Rightarrow> bool \<times> string list" where
  "check_fatal_parameters sr rb =
     (let failed_fatal_params = check_fatal_loop sr fatal_param_mapping []
      in (length failed_fatal_params > 0, failed_fatal_params))"

subsection \<open>compile\_final\_report\<close>

definition fatal_param_ids :: "string set" where
  "fatal_param_ids =
     {''brand_intro'', ''project_knowledge_accuracy'', ''professional'',
      ''tone_voice_modulation''}"

record param_detail =
  pd_id :: "string option"
  pd_name :: "string option"
  pd_max_points :: int
  pd_points_awarded :: int
  pd_score :: int
  pd_percentage :: real
  pd_rationale :: string
  pd_evidence :: "string list"
  pd_validation_notes :: string
  pd_response :: string
  pd_is_na :: bool
  pd_is_fatal :: bool

record category_score =
  cs_name :: "string option"
  cs_max_points :: int
  cs_score :: int
  cs_percentage :: real
  cs_parameters :: "param_detail list"

record report_metadata =
  md_model_used :: string
  md_transcript_length :: nat
  md_num_segments :: nat
  md_scoring_system :: string
  md_version :: string
  md_fatal_parameter_failed :: bool
  md_failed_fatal_parameters :: "string list option"
  md_fatal_error_reason :: "string option"

record report =
  rubric_title :: string
  total_points :: int
  total_score :: int
  percentage :: real
  criteria_scores :: "param_detail list"
  metadata :: report_metadata
  fatal_error_reason :: "string option"
  failed_fatal_parameters :: "string list option"

text \<open>
  The NA sentinel and the bounds check of the inner loop: the pair is the final
  \<open>(param_score, is_na)\<close>. The branches only log and assign; none raises.
\<close>

definition resolve_score :: "int \<Rightarrow> int \<Rightarrow> int \<times> bool" where
  "resolve_score param_score param_max =
     (if param_score = - 1 then (param_max, True)
      else if param_score < 0 then (0, False)
      else if param_score > param_max then (param_max, False)
      else (param_score, False))"

text \<open>\<open>round((a / b * 100), 2) if b > 0 else 0\<close>\<close>

definition pct :: "int \<Rightarrow> int \<Rightarrow> real" where
  "pct a b = (if b > 0 then py_round2 (real_of_int a / real_of_int b * 100) else 0)"

definition is_fatal_id :: "string option \<Rightarrow> bool" where
  "is_fatal_id pid = (case pid of None \<Rightarrow> False | Some i \<Rightarrow> i \<in> fatal_param_ids)"

definition make_param_detail :: "scoring_results \<Rightarrow> sub_parameter \<Rightarrow> param_detail" where
  "make_param_detail sr sub_param =
     (let param_id = sp_id sub_param;
          param_max = get_or (sp_max_points sub_param) 0;
          result = get_result sr param_id;
          (param_score, is_na) = resolve_score (get_or (j_score result) 0) param_max
      in \<lparr>pd_id = param_id, pd_name = sp_name sub_param, pd_max_points = param_max,
          pd_points_awarded = param_score, pd_score = param_score,
          pd_percentage = pct param_score param_max,
          pd_rationale = get_or (j_rationale result) ''No rationale provided'',
          pd_evidence = get_or (j_evidence result) [],
          pd_validation_notes = get_or (j_validation_notes result) '''',
          pd_response = ''V2'', pd_is_na = is_na, pd_is_fatal = is_fatal_id param_id\<rparr>)"

text \<open>
  The inner loop over a category's \<open>sub_parameters\<close>; the state is
  \<open>(cat_awarded, total_awarded, cat_details, detailed_scores)\<close>.
\<close>

fun sub_param_loop ::
  "scoring_results \<Rightarrow> sub_parameter list \<Rightarrow> int \<times> int \<times> param_detail list \<times> param_detail list
     \<Rightarrow> int \<times> int \<times> param_detail list \<times> param_detail list" where
  "sub_param_loop sr [] st = st"
| "sub_param_loop sr (sub_param # rest) (cat_awarded, total_awarded, cat_details, detailed_scores) =
     (let param_detail = make_param_detail sr sub_param;
          (cat_awarded', total_awarded') =
             (if \<not> pd_is_fatal param_detail
              then (cat_awarded + pd_score param_detail, total_awarded + pd_score param_detail)
              else (cat_awarded, total_awarded))
      in sub_param_loop sr rest
           (cat_awarded', total_awarded', cat_details @ [param_detail],
            detailed_scores @ [param_detail]))"

text \<open>
  The outer loop over \<open>categories\<close>; the state is
  \<open>(total_awarded, category_scores, detailed_scores)\<close>, with \<open>category_scores\<close> the
  dictionary keyed by category id.
\<close>

fun category_loop ::
  "scoring_results \<Rightarrow> category list
     \<Rightarrow> int \<times> (string option \<rightharpoonup> category_score) \<times> param_detail list
     \<Rightarrow> int \<times> (string option \<rightharpoonup> category_score) \<times> param_detail list" where
  "category_loop sr [] st = st"
| "category_loop sr (cat # rest) (total_awarded, category_scores, detailed_scores) =
     (let cat_max = get_or (cat_max_points cat) 0;
          (cat_awarded, total_awarded', cat_details, detailed_scores') =
             sub_param_loop sr (get_or (cat_sub_parameters cat) [])
               (0, total_awarded, [], detailed_scores)
      in category_loop sr rest
           (total_awarded',
            category_scores(cat_id cat \<mapsto>
              \<lparr>cs_name = cat_name cat, cs_max_points = cat_max, cs_score = cat_awarded,
               cs_percentage = pct cat_awarded cat_max, cs_parameters = cat_details\<rparr>),
            detailed_scores'))"

fun join_comma :: "string list \<Rightarrow> string" where
  "join_comma [] = ''''"
| "join_comma [s] = s"
| "join_comma (s # t # rest) = s @ '', '' @ join_comma (t # rest)"

text \<open>\<open>OPENAI_MODEL\<close> comes from the process environment and is a parameter here.\<close>

definition compile_final_report ::
  "string \<Rightarrow> scoring_results \<Rightarrow> rubric \<Rightarrow> nat \<Rightarrow> nat \<Rightarrow> report" where
  "compile_final_report OPENAI_MODEL sr rb transcript_length num_segments =
     (let (is_fatal_failed, failed_fatal_params) = check_fatal_parameters sr rb;
          total_possible = get_or (r_total_points rb) 100;
          (total_awarded0, category_scores, detailed_scores) =
             category_loop sr (get_or (r_categories rb) []) (0, Map.empty, []);
          total_awarded = (if is_fatal_failed then 0 else total_awarded0);
          percentage = pct total_awarded total_possible;
          fatal_reason =
            ''Score set to 0 due to FATAL parameter failure(s): '' @ join_comma failed_fatal_params
      in \<lparr>rubric_title = get_or (r_title rb) ''Empire Pre-Sales Call Quality Audit'',
          total_points = total_possible,
          total_score = total_awarded,
          percentage = percentage,
          criteria_scores = detailed_scores,
          metadata =
            \<lparr>md_model_used = OPENAI_MODEL, md_transcript_length = transcript_length,
             md_num_segments = num_segments, md_scoring_system = ''granular_v2'',
             md_version = ''2.0'', md_fatal_parameter_failed = is_fatal_failed,
             md_failed_fatal_parameters =
               (if is_fatal_failed then Some failed_fatal_params else None),
             md_fatal_error_reason = (if is_fatal_failed then Some fatal_reason else None)\<rparr>,
          fatal_error_reason = (if is_fatal_failed then Some fatal_reason else None),
          failed_fatal_parameters =
            (if is_fatal_failed then Some failed_fatal_params else None)\<rparr>)"

text \<open>The category dictionary that the same run builds (it is not part of the returned report).\<close>

definition compiled_category_scores ::
  "scoring_results \<Rightarrow> rubric \<Rightarrow> string option \<rightharpoonup> category_score" where
  "compiled_category_scores sr rb =
     fst (snd (category_loop sr (get_or (r_categories rb) []) (0, Map.empty, [])))"

section \<open>Segment aggregation engine (api/transcription.py)\<close>

subsection \<open>Text sanitizer\<close>

text \<open>
  \<open>_clean_unicode\<close> drops U+FFFD, the zero-width and directional markers of the regular
  expression, every code point that UTF-8 cannot encode (the surrogates, dropped by
  \<open>errors="ignore"\<close>) and every code point from \<open>0x110000\<close> on. On a \<open>str\<close> none of its
  steps raises, so the \<open>except\<close> branch is not reachable.
\<close>

definition dropped_codepoint :: "nat \<Rightarrow> bool" where
  "dropped_codepoint c \<longleftrightarrow>
     c = 0xFFFD \<or> (0x200B \<le> c \<and> c \<le> 0x200F) \<or> (0x202A \<le> c \<and> c \<le> 0x202E) \<or>
     (0x2060 \<le> c \<and> c \<le> 0x206F) \<or> c = 0xFEFF \<or> (0xD800 \<le> c \<and> c \<le> 0xDFFF) \<or>
     0x110000 \<le> c"

definition clean_unicode :: "pystr \<Rightarrow> pystr" where
  "clean_unicode text = (if text = [] then [] else filter (\<lambda>c. \<not> dropped_codepoint c) text)"

text \<open>\<open>str.strip()\<close> removes the code points for which \<open>str.isspace\<close> holds, at both ends.\<close>

definition py_isspace :: "nat \<Rightarrow> bool" where
  "py_isspace c \<longleftrightarrow>
     (0x09 \<le> c \<and> c \<le> 0x0D) \<or> (0x1C \<le> c \<and> c \<le> 0x20) \<or> c = 0x85 \<or> c = 0xA0 \<or>
     c = 0x1680 \<or> (0x2000 \<le> c \<and> c \<le> 0x200A) \<or> c = 0x2028 \<or> c = 0x2029 \<or>
     c = 0x202F \<or> c = 0x205F \<or> c = 0x3000"

definition py_strip :: "pystr \<Rightarrow> pystr" where
  "py_strip s = rev (dropWhile py_isspace (rev (dropWhile py_isspace s)))"

definition sanitize_text :: "pystr \<Rightarrow> pystr" where
  "sanitize_text text = (if text = [] then [] else py_strip (clean_unicode text))"

definition sanitize_token_text :: "pystr \<Rightarrow> pystr" where
  "sanitize_token_text text = (if text = [] then [] else clean_unicode text)"

subsection \<open>Segments\<close>

text \<open>
  A segment dictionary is an extensible record: the aggregator builds plain segments, the
  structured stage adds \<open>duration\<close>, and the merger and the normalizer copy whatever further
  keys a segment carries. Times are Python floats, modelled as exact reals.
\<close>

record segment =
  seg_speaker :: pystr
  seg_start_time :: real
  seg_end_time :: real
  seg_text :: pystr

record timed_segment = segment +
  seg_duration :: real

datatype py_error = ValueError string | KeyError pystr

subsection \<open>merge\_consecutive\_speaker\_segments\<close>

fun merge_loop ::
  "'a segment_scheme \<Rightarrow> 'a segment_scheme list \<Rightarrow> 'a segment_scheme list
     \<Rightarrow> 'a segment_scheme list" where
  "merge_loop current [] merged = merged @ [current]"
| "merge_loop current (next_seg # rest) merged =
     (if seg_speaker current = seg_speaker next_seg
      then merge_loop
             (current\<lparr>seg_end_time := seg_end_time next_seg,
                      seg_text := sanitize_text
                        (py_strip (seg_text current) @ ascii '' '' @ py_strip (seg_text next_seg))\<rparr>)
             rest merged
      else merge_loop next_seg rest (merged @ [current]))"

definition merge_consecutive_speaker_segments ::
  "'a segment_scheme list \<Rightarrow> 'a segment_scheme list" where
  "merge_consecutive_speaker_segments segments =
     (case segments of [] \<Rightarrow> [] | first # rest \<Rightarrow> merge_loop first rest [])"

subsection \<open>normalize\_speaker\_labels\<close>

text \<open>The decimal digits of a number, as \<open>f"{n}"\<close> prints them.\<close>

fun str_nat :: "nat \<Rightarrow> pystr" where
  "str_nat n = (if n < 10 then [48 + n] else str_nat (n div 10) @ [48 + n mod 10])"

declare str_nat.simps [simp del]

text \<open>The first loop: the state is \<open>(speaker_map, speaker_counter)\<close>.\<close>

fun speaker_map_loop ::
  "'a segment_scheme list \<Rightarrow> (pystr \<rightharpoonup> pystr) \<times> nat \<Rightarrow> (pystr \<rightharpoonup> pystr) \<times> nat" where
  "speaker_map_loop [] st = st"
| "speaker_map_loop (seg # rest) (speaker_map, speaker_counter) =
     (let speaker_id = seg_speaker seg
      in if speaker_map speaker_id = None
         then speaker_map_loop rest
                (speaker_map(speaker_id \<mapsto> ascii ''Speaker '' @ str_nat speaker_counter),
                 speaker_counter + 1)
         else speaker_map_loop rest (speaker_map, speaker_counter))"

text \<open>The second loop; \<open>speaker_map[seg["speaker"]]\<close> raises \<open>KeyError\<close> on a missing key.\<close>

fun apply_mapping ::
  "(pystr \<rightharpoonup> pystr) \<Rightarrow> 'a segment_scheme list \<Rightarrow> 'a segment_scheme list
     \<Rightarrow> py_error + 'a segment_scheme list" where
  "apply_mapping speaker_map [] normalized = Inr normalized"
| "apply_mapping speaker_map (seg # rest) normalized =
     (case speaker_map (seg_speaker seg) of
        None \<Rightarrow> Inl (KeyError (seg_speaker seg))
      | Some label \<Rightarrow>
          apply_mapping speaker_map rest (normalized @ [seg\<lparr>seg_speaker := label\<rparr>]))"

definition normalize_speaker_labels ::
  "'a segment_scheme list \<Rightarrow> py_error + 'a segment_scheme list" where
  "normalize_speaker_labels segments =
     (if segments = [] then Inr []
      else apply_mapping (fst (speaker_map_loop segments (Map.empty, 1))) segments [])"

subsection \<open>transcribe\_audio, from the provider's transcript response on\<close>

record token =
  tok_text :: "pystr option"
  tok_speaker :: "pystr option"
  tok_start_time :: "real option"
  tok_start_ms :: "real option"
  tok_end_time :: "real option"
  tok_end_ms :: "real option"

definition token_start :: "token \<Rightarrow> real" where
  "token_start tok =
     (case tok_start_time tok of
        None \<Rightarrow> (case tok_start_ms tok of None \<Rightarrow> 0 | Some raw_start \<Rightarrow> raw_start / 1000)
      | Some raw_start \<Rightarrow> raw_start)"

definition token_end :: "token \<Rightarrow> real" where
  "token_end tok =
     (case tok_end_time tok of
        None \<Rightarrow> (case tok_end_ms tok of None \<Rightarrow> token_start tok | Some raw_end \<Rightarrow> raw_end / 1000)
      | Some raw_end \<Rightarrow> raw_end)"

text \<open>\<open>x / 1000.0 if x > 1000 else x\<close>\<close>

definition unit_fix :: "real \<Rightarrow> real" where
  "unit_fix x = (if x > 1000 then x / 1000 else x)"

text \<open>Step 6, the loop over the tokens; the state is \<open>(segments, current_seg)\<close>.\<close>

fun token_loop ::
  "real \<Rightarrow> token list \<Rightarrow> segment list \<times> segment option \<Rightarrow> segment list \<times> segment option" where
  "token_loop merge_threshold [] st = st"
| "token_loop merge_threshold (tok # rest) (segments, current_seg) =
     (let text = sanitize_token_text (get_or (tok_text tok) [])
      in if text = [] then token_loop merge_threshold rest (segments, current_seg)
         else
           (let speaker = get_or (tok_speaker tok) (ascii ''UNKNOWN'');
                start = token_start tok;
                end' = token_end tok
            in if (case current_seg of None \<Rightarrow> True
                   | Some cur \<Rightarrow> seg_speaker cur \<noteq> speaker
                               \<or> start - seg_end_time cur > merge_threshold)
               then token_loop merge_threshold rest
                      ((case current_seg of None \<Rightarrow> segments | Some cur \<Rightarrow> segments @ [cur]),
                       Some \<lparr>seg_speaker = speaker, seg_start_time = unit_fix start,
                             seg_end_time = unit_fix end', seg_text = text\<rparr>)
               else token_loop merge_threshold rest
                      (segments,
                       map_option
                         (\<lambda>cur. cur\<lparr>seg_end_time := unit_fix end',
                                     seg_text := seg_text cur @ text\<rparr>)
                         current_seg)))"

definition build_segments :: "real \<Rightarrow> token list \<Rightarrow> segment list" where
  "build_segments merge_threshold tokens =
     (let (segments, current_seg) = token_loop merge_threshold tokens ([], None)
      in case current_seg of None \<Rightarrow> segments | Some cur \<Rightarrow> segments @ [cur])"

text \<open>
  The conversion to the structured format, a loop over \<open>enumerate(segments)\<close>; the state is
  \<open>(speaker_segments, total_duration)\<close>. The segments come from step 6, so of the speaker
  keys tried only \<open>speaker\<close> exists, and an empty speaker falls through to the indexed name.
\<close>

fun structure_loop ::
  "nat \<Rightarrow> segment list \<Rightarrow> timed_segment list \<times> real \<Rightarrow> timed_segment list \<times> real" where
  "structure_loop idx [] st = st"
| "structure_loop idx (seg # rest) (speaker_segments, total_duration) =
     (let speaker_id =
            (if seg_speaker seg \<noteq> [] then seg_speaker seg
             else ascii ''SPEAKER_UNKNOWN_'' @ str_nat idx);
          start_time = seg_start_time seg;
          segment_text = sanitize_text (seg_text seg)
      in if segment_text = [] then structure_loop (idx + 1) rest (speaker_segments, total_duration)
         else
           (let end_time =
                  (if seg_end_time seg < start_time then start_time + 1 else seg_end_time seg)
            in structure_loop (idx + 1) rest
                 (speaker_segments @
                    [\<lparr>seg_speaker = speaker_id, seg_start_time = py_round2 start_time,
                      seg_end_time = py_round2 end_time, seg_text = segment_text,
                      seg_duration = py_round2 (end_time - start_time)\<rparr>],
                  (if end_time > total_duration then end_time else total_duration))))"

record transcript_json =
  tj_tokens :: "token list option"
  tj_text :: "pystr option"

record transcript_result =
  tr_transcription :: pystr
  tr_speaker_segments :: "timed_segment list"
  tr_duration :: real
  tr_speaker_count :: nat

text \<open>
  Every exception raised inside the \<open>try\<close> block that is not a \<open>requests\<close> exception is
  caught by \<open>except Exception\<close> and raised again as a \<open>ValueError\<close>.
\<close>

fun str_error :: "py_error \<Rightarrow> string" where
  "str_error (ValueError msg) = msg"
| "str_error (KeyError k) = ''KeyError''"

definition reraise :: "py_error \<Rightarrow> py_error" where
  "reraise e = ValueError (''Transcription failed: '' @ str_error e)"

text \<open>
  Steps 4 to 6 and the post-processing of \<open>transcribe_audio\<close>, given the decoded transcript
  response. The upload, the polling and the file metadata belong to the provider protocol
  and are not modelled.
\<close>

definition transcribe_audio ::
  "real \<Rightarrow> bool \<Rightarrow> transcript_json \<Rightarrow> py_error + transcript_result" where
  "transcribe_audio merge_threshold normalize_speakers response =
     (let tokens = get_or (tj_tokens response) []
      in if tokens = []
         then Inl (reraise (ValueError ''Soniox transcript response did not contain any tokens''))
         else
           (let top_text = get_or (tj_text response) [];
                full_transcript =
                  sanitize_text
                    (if top_text \<noteq> [] then top_text
                     else concat (map (\<lambda>tok. sanitize_token_text (get_or (tok_text tok) []))
                            (filter (\<lambda>tok. get_or (tok_text tok) [] \<noteq> []) tokens)));
                segments = build_segments merge_threshold tokens;
                (speaker_segments, total_duration) = structure_loop 0 segments ([], 0);
                merged = merge_consecutive_speaker_segments speaker_segments
            in case (if normalize_speakers then normalize_speaker_labels merged else Inr merged) of
                 Inl e \<Rightarrow> Inl (reraise e)
               | Inr final_segments \<Rightarrow>
                   Inr \<lparr>tr_transcription = full_transcript,
                        tr_speaker_segments = final_segments,
                        tr_duration = py_round2 total_duration,
                        tr_speaker_count = card (set (map seg_speaker final_segments))\<rparr>))"

subsection \<open>score\_transcript\_main\<close>

record 'a transcript_data =
  td_transcription :: "pystr option"
  td_speaker_segments :: "'a list option"

text \<open>
  The rubric loader and the oracle call are external collaborators, each of which may raise:
  the loaded rubric and the oracle are parameters. The knowledge files reach the report only
  through the oracle.
\<close>

definition score_transcript_main ::
  "string \<Rightarrow> (py_error + rubric) \<Rightarrow> (pystr \<Rightarrow> rubric \<Rightarrow> 'a list \<Rightarrow> py_error + scoring_results)
     \<Rightarrow> 'a transcript_data \<Rightarrow> py_error + report" where
  "score_transcript_main OPENAI_MODEL load_rubric_v2 score_transcript_v2 transcript_data =
     (let transcript = get_or (td_transcription transcript_data) []
      in if transcript = [] \<or> py_strip transcript = []
         then Inl (ValueError ''Transcript is empty or missing'')
         else
           (case load_rubric_v2 of
              Inl e \<Rightarrow> Inl e
            | Inr rb \<Rightarrow>
                (let speaker_segments = get_or (td_speaker_segments transcript_data) []
                 in case score_transcript_v2 transcript rb speaker_segments of
                      Inl e \<Rightarrow> Inl e
                    | Inr sr \<Rightarrow>
                        Inr (compile_final_report OPENAI_MODEL sr rb (length transcript)
                               (length speaker_segments)))))"

section \<open>Reference notions used to state the properties\<close>

text \<open>Every criterion of the rubric, in declaration order.\<close>

definition all_sub_parameters :: "rubric \<Rightarrow> sub_parameter list" where
  "all_sub_parameters rb =
     concat (map (\<lambda>cat. get_or (cat_sub_parameters cat) []) (get_or (r_categories rb) []))"

text \<open>The sum of the resolved scores of the entries whose id is not a fatal id.\<close>

definition non_fatal_sum :: "param_detail list \<Rightarrow> int" where
  "non_fatal_sum ds = sum_list (map pd_score (filter (\<lambda>d. \<not> is_fatal_id (pd_id d)) ds))"

definition clamp :: "int \<Rightarrow> int \<Rightarrow> int \<Rightarrow> int" where
  "clamp x lo hi = max lo (min x hi)"

text \<open>The percentage as the specification words it.\<close>

definition spec_percentage :: "int \<Rightarrow> int \<Rightarrow> real" where
  "spec_percentage total_awarded total_possible =
     (if total_possible = 0 then 0
      else py_round2 (real_of_int total_awarded / real_of_int total_possible * 100))"

subsection \<open>A small rubric and payloads over it\<close>

definition example_rubric :: rubric where
  "example_rubric =
     \<lparr>r_title = Some ''Empire Pre-Sales Call Quality Audit'', r_total_points = Some 100,
      r_categories = Some
        [\<lparr>cat_id = Some ''greeting'', cat_name = Some ''Greeting'', cat_max_points = Some 9,
          cat_sub_parameters = Some
            [\<lparr>sp_id = Some ''brand_intro'', sp_name = Some ''Introduction of brand'',
              sp_max_points = Some 5\<rparr>,
             \<lparr>sp_id = Some ''greeting_quality'', sp_name = Some ''Greeting quality'',
              sp_max_points = Some 4\<rparr>]\<rparr>,
         \<lparr>cat_id = Some ''soft_skills'', cat_name = Some ''Soft skills'',
          cat_max_points = Some 28,
          cat_sub_parameters = Some
            [\<lparr>sp_id = Some ''professional'', sp_name = Some ''Professional behaviour'',
              sp_max_points = Some 8\<rparr>,
             \<lparr>sp_id = Some ''objection_handling'', sp_name = Some ''Objection handling'',
              sp_max_points = Some 12\<rparr>]\<rparr>]\<rparr>"

definition scored :: "int \<Rightarrow> judgement" where
  "scored s = \<lparr>j_score = Some s, j_rationale = None, j_evidence = None,
               j_validation_notes = None\<rparr>"

definition example_payload :: "int \<Rightarrow> int \<Rightarrow> scoring_results" where
  "example_payload brand greeting =
     map_of [(''brand_intro'', scored brand), (''greeting_quality'', scored greeting),
             (''project_knowledge_accuracy'', scored 10), (''professional'', scored 8),
             (''objection_handling'', scored (- 1)), (''tone_voice_modulation'', scored 6)]"

definition payload_without_tone :: scoring_results where
  "payload_without_tone =
     map_of [(''brand_intro'', scored 5), (''greeting_quality'', scored 3),
             (''project_knowledge_accuracy'', scored 10), (''professional'', scored 8),
             (''objection_handling'', scored (- 1))]"

subsection \<open>The token aggregator as the specification words it\<close>

text \<open>
  One pass over the tokens with the open segment as the only state: a token with empty
  sanitized text is skipped; a token starts a new segment when none is open, when its speaker
  differs, or when it starts more than the threshold after the open segment's end; any other
  token extends the open segment.
\<close>

definition token_speaker :: "token \<Rightarrow> pystr" where
  "token_speaker tok = get_or (tok_speaker tok) (ascii ''UNKNOWN'')"

definition token_text :: "token \<Rightarrow> pystr" where
  "token_text tok = sanitize_token_text (get_or (tok_text tok) [])"

definition starts_new_segment :: "real \<Rightarrow> segment option \<Rightarrow> token \<Rightarrow> bool" where
  "starts_new_segment merge_threshold opened tok =
     (case opened of
        None \<Rightarrow> True
      | Some cur \<Rightarrow> token_speaker tok \<noteq> seg_speaker cur
                  \<or> token_start tok - seg_end_time cur > merge_threshold)"

definition open_segment :: "token \<Rightarrow> segment" where
  "open_segment tok =
     \<lparr>seg_speaker = token_speaker tok, seg_start_time = unit_fix (token_start tok),
      seg_end_time = unit_fix (token_end tok), seg_text = token_text tok\<rparr>"

definition extend_segment :: "segment \<Rightarrow> token \<Rightarrow> segment" where
  "extend_segment cur tok =
     cur\<lparr>seg_end_time := unit_fix (token_end tok), seg_text := seg_text cur @ token_text tok\<rparr>"

fun flush :: "segment option \<Rightarrow> segment list" where
  "flush None = []"
| "flush (Some cur) = [cur]"

fun spec_aggregate :: "real \<Rightarrow> segment option \<Rightarrow> token list \<Rightarrow> segment list" where
  "spec_aggregate merge_threshold opened [] = flush opened"
| "spec_aggregate merge_threshold opened (tok # rest) =
     (if token_text tok = [] then spec_aggregate merge_threshold opened rest
      else if starts_new_segment merge_threshold opened tok
      then flush opened @ spec_aggregate merge_threshold (Some (open_segment tok)) rest
      else spec_aggregate merge_threshold (map_option (\<lambda>cur. extend_segment cur tok) opened) rest)"

subsection \<open>Speaker labels by first appearance\<close>

text \<open>
  The rank of a speaker is one more than the number of distinct speakers that appear before
  its first appearance.
\<close>

definition speaker_rank :: "pystr \<Rightarrow> pystr list \<Rightarrow> nat" where
  "speaker_rank s speakers = card (set (takeWhile (\<lambda>t. t \<noteq> s) speakers)) + 1"

definition speaker_label :: "nat \<Rightarrow> pystr" where
  "speaker_label k = ascii ''Speaker '' @ str_nat k"

text \<open>The invariant of the first loop of \<open>normalize_speaker_labels\<close>, after the speakers \<open>seen\<close>.\<close>

definition map_agrees :: "(pystr \<rightharpoonup> pystr) \<times> nat \<Rightarrow> pystr list \<Rightarrow> bool" where
  "map_agrees st seen \<longleftrightarrow>
     snd st = card (set seen) + 1 \<and>
     (\<forall>s. fst st s = (if s \<in> set seen then Some (speaker_label (speaker_rank s seen)) else None))"

subsection \<open>Tokens and segments of the scenarios\<close>

definition timed_token :: "string \<Rightarrow> string \<Rightarrow> real \<Rightarrow> real \<Rightarrow> token" where
  "timed_token speaker text start_time end_time =
     \<lparr>tok_text = Some (ascii text), tok_speaker = Some (ascii speaker),
      tok_start_time = Some start_time, tok_start_ms = None,
      tok_end_time = Some end_time, tok_end_ms = None\<rparr>"

definition scenario_tokens :: "token list" where
  "scenario_tokens =
     [timed_token ''A'' ''Hi '' 0 1, timed_token ''A'' ''there'' 1.2 1.5,
      timed_token ''B'' ''Hello'' 2 2.5]"

definition raw_segment :: "string \<Rightarrow> real \<Rightarrow> real \<Rightarrow> string \<Rightarrow> segment" where
  "raw_segment speaker start_time end_time text =
     \<lparr>seg_speaker = ascii speaker, seg_start_time = start_time, seg_end_time = end_time,
      seg_text = ascii text\<rparr>"

definition scenario_segments :: "segment list" where
  "scenario_segments =
     [raw_segment ''S2'' 0 1 ''a'', raw_segment ''S2'' 2 3 ''b'',
      raw_segment ''S5'' 3 4 ''c'', raw_segment ''S2'' 5 6 ''d'']"

definition pause_response :: transcript_json where
  "pause_response =
     \<lparr>tj_tokens = Some [timed_token ''A'' ''Hi'' 0 1, timed_token ''A'' ''there'' 5 6],
      tj_text = None\<rparr>"

section \<open>Properties of the score compilation engine\<close>

lemma make_param_detail_fields:
  "pd_id (make_param_detail sr sp) = sp_id sp"
  "pd_is_fatal (make_param_detail sr sp) = is_fatal_id (sp_id sp)"
  "pd_max_points (make_param_detail sr sp) = get_or (sp_max_points sp) 0"
  "pd_score (make_param_detail sr sp) =
     fst (resolve_score (raw_score sr (sp_id sp)) (get_or (sp_max_points sp) 0))"
  "pd_is_na (make_param_detail sr sp) =
     snd (resolve_score (raw_score sr (sp_id sp)) (get_or (sp_max_points sp) 0))"
  by (simp_all add: make_param_detail_def raw_score_def Let_def split: prod.splits)

lemma non_fatal_sum_append:
  "non_fatal_sum (xs @ ys) = non_fatal_sum xs + non_fatal_sum ys"
  by (simp add: non_fatal_sum_def)

lemma sub_param_loop_eq:
  "sub_param_loop sr sps (ca, ta, cd, ds) =
     (ca + non_fatal_sum (map (make_param_detail sr) sps),
      ta + non_fatal_sum (map (make_param_detail sr) sps),
      cd @ map (make_param_detail sr) sps,
      ds @ map (make_param_detail sr) sps)"
proof (induction sps arbitrary: ca ta cd ds)
  case Nil
  show ?case by (simp add: non_fatal_sum_def)
next
  case (Cons sp sps)
  show ?case
    by (simp add: Cons.IH Let_def non_fatal_sum_def make_param_detail_fields)
qed

lemma category_loop_total:
  "fst (category_loop sr cats (ta, cs, ds)) =
     ta + non_fatal_sum (map (make_param_detail sr)
            (concat (map (\<lambda>cat. get_or (cat_sub_parameters cat) []) cats)))"
proof (induction cats arbitrary: ta cs ds)
  case Nil
  show ?case by (simp add: non_fatal_sum_def)
next
  case (Cons c cats)
  show ?case
    by (simp add: sub_param_loop_eq Cons.IH non_fatal_sum_append Let_def)
qed

lemma category_loop_details:
  "snd (snd (category_loop sr cats (ta, cs, ds))) =
     ds @ map (make_param_detail sr)
            (concat (map (\<lambda>cat. get_or (cat_sub_parameters cat) []) cats))"
proof (induction cats arbitrary: ta cs ds)
  case Nil
  show ?case by simp
next
  case (Cons c cats)
  show ?case
    by (simp add: sub_param_loop_eq Cons.IH Let_def)
qed

lemma category_loop_scores:
  "(\<forall>k c. cs k = Some c \<longrightarrow> cs_score c = non_fatal_sum (cs_parameters c)) \<Longrightarrow>
   (\<forall>k c. fst (snd (category_loop sr cats (ta, cs, ds))) k = Some c
      \<longrightarrow> cs_score c = non_fatal_sum (cs_parameters c))"
proof (induction cats arbitrary: ta cs ds)
  case Nil
  then show ?case by simp
next
  case (Cons a cats)
  have step: "category_loop sr (a # cats) (ta, cs, ds) =
        category_loop sr cats
          (ta + non_fatal_sum (map (make_param_detail sr) (get_or (cat_sub_parameters a) [])),
           cs(cat_id a \<mapsto>
              \<lparr>cs_name = cat_name a, cs_max_points = get_or (cat_max_points a) 0,
               cs_score = non_fatal_sum (map (make_param_detail sr) (get_or (cat_sub_parameters a) [])),
               cs_percentage = pct (non_fatal_sum (map (make_param_detail sr) (get_or (cat_sub_parameters a) []))) (get_or (cat_max_points a) 0),
               cs_parameters = map (make_param_detail sr) (get_or (cat_sub_parameters a) [])\<rparr>),
           ds @ map (make_param_detail sr) (get_or (cat_sub_parameters a) []))"
    by (simp add: sub_param_loop_eq Let_def)
  show ?case
    unfolding step
    by (rule Cons.IH) (use Cons.prems in auto)
qed

lemma compile_total_score:
  "total_score (compile_final_report M sr rb n k) =
     (if fst (check_fatal_parameters sr rb) then 0
      else non_fatal_sum (map (make_param_detail sr) (all_sub_parameters rb)))"
  using category_loop_total[of sr "get_or (r_categories rb) []" 0 Map.empty "[]"]
  by (auto simp: compile_final_report_def Let_def all_sub_parameters_def split: prod.splits)

lemma compile_criteria_scores:
  "criteria_scores (compile_final_report M sr rb n k) =
     map (make_param_detail sr) (all_sub_parameters rb)"
  using category_loop_details[of sr "get_or (r_categories rb) []" 0 Map.empty "[]"]
  by (auto simp: compile_final_report_def Let_def all_sub_parameters_def split: prod.splits)

lemma check_fatal_loop_nonempty:
  "check_fatal_loop sr m failed \<noteq> [] \<longleftrightarrow>
     failed \<noteq> [] \<or> (\<exists>p \<in> set m. raw_score sr (Some (fst p)) = 0)"
proof (induction m arbitrary: failed)
  case Nil
  show ?case by simp
next
  case (Cons a m)
  obtain pid desc where a: "a = (pid, desc)" by (cases a)
  show ?case by (auto simp: a Cons.IH Let_def)
qed

lemma fatal_check_iff:
  "fst (check_fatal_parameters sr rb) \<longleftrightarrow> (\<exists>fid \<in> fatal_param_ids. raw_score sr (Some fid) = 0)"
  by (simp add: check_fatal_parameters_def Let_def check_fatal_loop_nonempty
                fatal_param_mapping_def fatal_param_ids_def)

lemma example_fatal_check:
  "fst (check_fatal_parameters (example_payload b g) example_rubric) \<longleftrightarrow> b = 0"
  by (simp add: fatal_check_iff fatal_param_ids_def raw_score_def get_result_def
        example_payload_def scored_def get_or_def)

lemma example_sub_parameters:
  "all_sub_parameters example_rubric =
     [\<lparr>sp_id = Some ''brand_intro'', sp_name = Some ''Introduction of brand'',
       sp_max_points = Some 5\<rparr>,
      \<lparr>sp_id = Some ''greeting_quality'', sp_name = Some ''Greeting quality'',
       sp_max_points = Some 4\<rparr>,
      \<lparr>sp_id = Some ''professional'', sp_name = Some ''Professional behaviour'',
       sp_max_points = Some 8\<rparr>,
      \<lparr>sp_id = Some ''objection_handling'', sp_name = Some ''Objection handling'',
       sp_max_points = Some 12\<rparr>]"
  by (simp add: all_sub_parameters_def example_rubric_def get_or_def)

lemma example_non_fatal_sum:
  "non_fatal_sum (map (make_param_detail (example_payload b 3))
      (all_sub_parameters example_rubric)) = 15"
  by (simp add: example_sub_parameters
        non_fatal_sum_def make_param_detail_fields is_fatal_id_def fatal_param_ids_def
        resolve_score_def raw_score_def get_result_def example_payload_def scored_def get_or_def)

lemma resolve_score_clamp:
  "snd (resolve_score raw m) = (raw = - 1)"
  "raw = - 1 \<Longrightarrow> fst (resolve_score raw m) = m"
  "raw \<noteq> - 1 \<Longrightarrow> 0 \<le> m \<Longrightarrow> fst (resolve_score raw m) = clamp raw 0 m"
  by (auto simp: resolve_score_def clamp_def)

lemma compile_percentage:
  "percentage (compile_final_report M sr rb n k) =
     pct (total_score (compile_final_report M sr rb n k))
         (total_points (compile_final_report M sr rb n k))"
  by (simp add: compile_final_report_def Let_def split: prod.splits)

lemma compile_total_points:
  "total_points (compile_final_report M sr rb n k) = get_or (r_total_points rb) 100"
  by (simp add: compile_final_report_def Let_def split: prod.splits)

lemma py_round2_15: "py_round2 15 = 15"
  by (simp add: py_round2_def Let_def)

text \<open>
  Claim C1 (fatal dominance). The claim: whenever a fatal criterion's resolved score is 0 and the
  criterion is not NA, the report's total is 0. \<open>check_fatal_parameters\<close> compares the raw
  score with 0, while the report holds the score after the bounds check, so a fatal criterion
  with a negative raw score other than \<open>-1\<close> is reported with score 0 and the total is
  left as it is. Evaluated here on \<open>brand_intro\<close> with raw score \<open>-2\<close>: the entry is
  fatal, scores 0, is not NA, and the total is 15.
\<close>

theorem clamped_zero_fatal_not_detected:
  "(let r = compile_final_report ''gpt'' (example_payload (- 2) 3) example_rubric 40 2
    in pd_id (criteria_scores r ! 0) = Some ''brand_intro'' \<and>
       pd_is_fatal (criteria_scores r ! 0) \<and>
       pd_score (criteria_scores r ! 0) = 0 \<and>
       \<not> pd_is_na (criteria_scores r ! 0) \<and>
       total_score r = 15 \<and>
       fatal_error_reason r = None)"
proof -
  have chk: "\<not> fst (check_fatal_parameters (example_payload (- 2) 3) example_rubric)"
    by (simp add: example_fatal_check)
  have tot: "total_score (compile_final_report ''gpt'' (example_payload (- 2) 3) example_rubric 40 2)
      = 15"
    by (simp add: compile_total_score example_fatal_check example_non_fatal_sum)
  have reason: "fatal_error_reason
      (compile_final_report ''gpt'' (example_payload (- 2) 3) example_rubric 40 2) = None"
    using chk by (auto simp: compile_final_report_def Let_def split: prod.splits)
  have entry: "criteria_scores
      (compile_final_report ''gpt'' (example_payload (- 2) 3) example_rubric 40 2) ! 0 =
      make_param_detail (example_payload (- 2) 3)
        \<lparr>sp_id = Some ''brand_intro'', sp_name = Some ''Introduction of brand'',
         sp_max_points = Some 5\<rparr>"
    by (simp add: compile_criteria_scores example_sub_parameters)
  show ?thesis
    unfolding Let_def entry
    using tot reason
    by (simp add: make_param_detail_fields is_fatal_id_def fatal_param_ids_def
          resolve_score_def raw_score_def get_result_def example_payload_def scored_def get_or_def)
qed

text \<open>
  Claim C2 (exclusion). Every category total is the sum of the resolved scores of its entries
  whose id is not fatal, whatever the fatal entries score; and when the fatal check does not
  trigger, the report's total is the sum of the resolved scores of the non-fatal entries of
  \<open>criteria_scores\<close>.
\<close>

theorem fatal_points_excluded:
  "(\<forall>cid c. compiled_category_scores sr rb cid = Some c
       \<longrightarrow> cs_score c = non_fatal_sum (cs_parameters c)) \<and>
   (\<not> fst (check_fatal_parameters sr rb)
       \<longrightarrow> total_score (compile_final_report M sr rb n k) =
           non_fatal_sum (criteria_scores (compile_final_report M sr rb n k)))"
proof -
  have "\<forall>k c. fst (snd (category_loop sr (get_or (r_categories rb) []) (0, Map.empty, []))) k
           = Some c \<longrightarrow> cs_score c = non_fatal_sum (cs_parameters c)"
    by (rule category_loop_scores) simp
  then show ?thesis
    by (simp add: compiled_category_scores_def compile_total_score compile_criteria_scores)
qed

theorem fatal_points_excluded_witness:
  "\<not> fst (check_fatal_parameters (example_payload 5 3) example_rubric) \<and>
   total_score (compile_final_report ''gpt'' (example_payload 5 3) example_rubric 40 2) = 15 \<and>
   non_fatal_sum (criteria_scores
      (compile_final_report ''gpt'' (example_payload 5 3) example_rubric 40 2)) = 15 \<and>
   (\<exists>c. compiled_category_scores (example_payload 5 3) example_rubric (Some ''soft_skills'')
          = Some c \<and> cs_score c = 12 \<and> non_fatal_sum (cs_parameters c) = 12)"
proof -
  have chk: "\<not> fst (check_fatal_parameters (example_payload 5 3) example_rubric)"
    by (simp add: fatal_check_iff fatal_param_ids_def raw_score_def get_result_def
          example_payload_def scored_def get_or_def)
  have tot: "non_fatal_sum (criteria_scores
      (compile_final_report ''gpt'' (example_payload 5 3) example_rubric 40 2)) = 15"
    by (simp add: compile_criteria_scores all_sub_parameters_def example_rubric_def
          non_fatal_sum_def make_param_detail_fields is_fatal_id_def fatal_param_ids_def
          resolve_score_def raw_score_def get_result_def example_payload_def scored_def get_or_def)
  have cat: "\<exists>c. compiled_category_scores (example_payload 5 3) example_rubric (Some ''soft_skills'')
          = Some c \<and> non_fatal_sum (cs_parameters c) = 12"
    by (simp add: compiled_category_scores_def example_rubric_def get_or_def sub_param_loop_eq
          Let_def non_fatal_sum_def make_param_detail_fields is_fatal_id_def fatal_param_ids_def
          resolve_score_def raw_score_def get_result_def example_payload_def scored_def)
  from fatal_points_excluded[of "example_payload 5 3" example_rubric "''gpt''" 40 2] chk tot cat
  show ?thesis by auto
qed

text \<open>
  Claim C3 (score entry validator). The report has one entry per rubric criterion, in rubric
  order. With \<open>m\<close> the criterion's \<open>max_points\<close> and \<open>raw\<close> the oracle's score (0 when the
  payload has none): \<open>is_na\<close> holds exactly when \<open>raw = -1\<close>; then the score is \<open>m\<close>;
  otherwise, for \<open>m \<ge> 0\<close> as the data model requires, the score is \<open>clamp raw 0 m\<close>. The
  resolution is a total function: no branch of it raises.
\<close>

theorem score_entry_resolution:
  "length (criteria_scores (compile_final_report M sr rb n k)) = length (all_sub_parameters rb) \<and>
   (\<forall>i < length (all_sub_parameters rb).
      (let d = criteria_scores (compile_final_report M sr rb n k) ! i;
           sp = all_sub_parameters rb ! i;
           m = get_or (sp_max_points sp) 0;
           raw = raw_score sr (sp_id sp)
       in pd_id d = sp_id sp \<and> pd_max_points d = m \<and>
          (pd_is_na d \<longleftrightarrow> raw = - 1) \<and>
          (pd_is_na d \<longrightarrow> pd_score d = m) \<and>
          (\<not> pd_is_na d \<longrightarrow> 0 \<le> m \<longrightarrow> pd_score d = clamp raw 0 m \<and>
             0 \<le> pd_score d \<and> pd_score d \<le> m)))"
proof -
  have "pd_score d' = clamp raw 0 m \<Longrightarrow> 0 \<le> m \<Longrightarrow> 0 \<le> pd_score d' \<and> pd_score d' \<le> m"
    for d' :: param_detail and raw m
    by (simp add: clamp_def)
  then show ?thesis
    by (simp add: compile_criteria_scores make_param_detail_fields resolve_score_clamp Let_def
          clamp_def)
qed

theorem score_entry_resolution_witness:
  "(let r = compile_final_report ''gpt'' (example_payload (- 7) 15) example_rubric 40 2
    in length (criteria_scores r) = 4 \<and>
       raw_score (example_payload (- 7) 15) (Some ''brand_intro'') = - 7 \<and>
       \<not> pd_is_na (criteria_scores r ! 0) \<and> pd_score (criteria_scores r ! 0) = 0 \<and>
       raw_score (example_payload (- 7) 15) (Some ''greeting_quality'') = 15 \<and>
       pd_max_points (criteria_scores r ! 1) = 4 \<and>
       \<not> pd_is_na (criteria_scores r ! 1) \<and> pd_score (criteria_scores r ! 1) = 4 \<and>
       raw_score (example_payload (- 7) 15) (Some ''objection_handling'') = - 1 \<and>
       pd_max_points (criteria_scores r ! 3) = 12 \<and>
       pd_is_na (criteria_scores r ! 3) \<and> pd_score (criteria_scores r ! 3) = 12)"
proof -
  have subs: "all_sub_parameters example_rubric =
     [\<lparr>sp_id = Some ''brand_intro'', sp_name = Some ''Introduction of brand'',
       sp_max_points = Some 5\<rparr>,
      \<lparr>sp_id = Some ''greeting_quality'', sp_name = Some ''Greeting quality'',
       sp_max_points = Some 4\<rparr>,
      \<lparr>sp_id = Some ''professional'', sp_name = Some ''Professional behaviour'',
       sp_max_points = Some 8\<rparr>,
      \<lparr>sp_id = Some ''objection_handling'', sp_name = Some ''Objection handling'',
       sp_max_points = Some 12\<rparr>]"
    by (simp add: all_sub_parameters_def example_rubric_def get_or_def)
  have raws: "raw_score (example_payload (- 7) 15) (Some ''brand_intro'') = - 7"
    "raw_score (example_payload (- 7) 15) (Some ''greeting_quality'') = 15"
    "raw_score (example_payload (- 7) 15) (Some ''objection_handling'') = - 1"
    by (simp_all add: raw_score_def get_result_def example_payload_def scored_def get_or_def)
  note inst = score_entry_resolution[of "''gpt''" "example_payload (- 7) 15" example_rubric 40 2, unfolded subs]
  note len = inst[THEN conjunct1]
  note e0 = inst[THEN conjunct2, rule_format, of 0]
  note e1 = inst[THEN conjunct2, rule_format, of 1]
  note e3 = inst[THEN conjunct2, rule_format, of 3]
  show ?thesis
    using len e0 e1 e3 raws
    by (simp add: Let_def get_or_def clamp_def)
qed

text \<open>
  Claim C8 (percentage and budget). \<open>total_points\<close> is the budget the rubric declares,
  whatever the payload and so whatever the fatal check finds; and for a budget that is not
  negative, \<open>percentage\<close> is \<open>round(total_score / total_points * 100, 2)\<close>, or 0 when the
  budget is 0.
\<close>

theorem report_percentage:
  "(let r = compile_final_report M sr rb n k
    in (r_total_points rb = Some t \<longrightarrow> total_points r = t) \<and>
       (0 \<le> total_points r \<longrightarrow>
          percentage r = spec_percentage (total_score r) (total_points r)))"
  by (simp add: Let_def compile_percentage compile_total_points pct_def spec_percentage_def
        get_or_def)

theorem report_percentage_witness:
  "(let r = compile_final_report ''gpt'' (example_payload 5 3) example_rubric 40 2
    in r_total_points example_rubric = Some 100 \<and> total_points r = 100 \<and>
       total_score r = 15 \<and> percentage r = 15)"
proof -
  have decl: "r_total_points example_rubric = Some 100"
    by (simp add: example_rubric_def)
  have tot: "total_score (compile_final_report ''gpt'' (example_payload 5 3) example_rubric 40 2)
      = 15"
    by (simp add: compile_total_score example_fatal_check example_non_fatal_sum)
  show ?thesis
    using report_percentage[of "''gpt''" "example_payload 5 3" example_rubric 40 2 100] decl tot
    by (simp add: Let_def spec_percentage_def py_round2_15)
qed

text \<open>
  Claim C10 (absent fatal id). When one of the four fatal ids has no entry in the payload, its
  raw score reads as 0, the fatal check triggers, the report's total is 0, and no entry of the
  report with that id is marked NA.
\<close>

theorem absent_fatal_id_forces_zero:
  assumes "fid \<in> fatal_param_ids" and "sr fid = None"
  shows "raw_score sr (Some fid) = 0 \<and>
         fst (check_fatal_parameters sr rb) \<and>
         total_score (compile_final_report M sr rb n k) = 0 \<and>
         (\<forall>d \<in> set (criteria_scores (compile_final_report M sr rb n k)).
            pd_id d = Some fid \<longrightarrow> \<not> pd_is_na d)"
proof -
  have raw: "raw_score sr (Some fid) = 0"
    using assms(2) by (simp add: raw_score_def get_result_def empty_judgment_def get_or_def)
  have chk: "fst (check_fatal_parameters sr rb)"
    using assms(1) raw by (auto simp: fatal_check_iff)
  have na: "\<not> pd_is_na d"
    if "d \<in> set (criteria_scores (compile_final_report M sr rb n k))" "pd_id d = Some fid" for d
  proof -
    from that(1) obtain sp where d: "d = make_param_detail sr sp"
      by (auto simp: compile_criteria_scores)
    with that(2) have "sp_id sp = Some fid" by (simp add: make_param_detail_fields)
    then show ?thesis by (simp add: d make_param_detail_fields raw resolve_score_def)
  qed
  show ?thesis
    using raw chk na by (simp add: compile_total_score)
qed

theorem absent_fatal_id_witness:
  "''tone_voice_modulation'' \<in> fatal_param_ids \<and>
   payload_without_tone ''tone_voice_modulation'' = None \<and>
   fst (check_fatal_parameters payload_without_tone example_rubric) \<and>
   total_score (compile_final_report ''gpt'' payload_without_tone example_rubric 40 2) = 0"
proof -
  have a: "''tone_voice_modulation'' \<in> fatal_param_ids"
    by (simp add: fatal_param_ids_def)
  have b: "payload_without_tone ''tone_voice_modulation'' = None"
    by (simp add: payload_without_tone_def)
  show ?thesis
    using absent_fatal_id_forces_zero[where fid = "''tone_voice_modulation''" and sr = payload_without_tone
          and rb = example_rubric and M = "''gpt''" and n = 40 and k = 2] a b
    by simp
qed

section \<open>Properties of the segment aggregation engine\<close>

lemma merge_loop_acc: "merge_loop c rest merged = merged @ merge_loop c rest []"
proof (induction rest arbitrary: c merged)
  case Nil
  show ?case by simp
next
  case (Cons a rest)
  show ?case
    using Cons.IH[of _ "merged @ [c]"] Cons.IH[of _ "[c]"] Cons.IH[of _ merged]
    by simp
qed

lemma merge_loop_head:
  "\<exists>c' tl. merge_loop c rest [] = c' # tl \<and> seg_speaker c' = seg_speaker c"
proof (induction rest arbitrary: c)
  case Nil
  show ?case by simp
next
  case (Cons a rest)
  show ?case
  proof (cases "seg_speaker c = seg_speaker a")
    case True
    then show ?thesis using Cons.IH[of "c\<lparr>seg_end_time := seg_end_time a,
        seg_text := sanitize_text (py_strip (seg_text c) @ ascii '' '' @ py_strip (seg_text a))\<rparr>"]
      by simp
  next
    case False
    then show ?thesis using merge_loop_acc[of a rest "[c]"] by simp
  qed
qed

lemma merge_loop_distinct_adj:
  "distinct_adj (map seg_speaker (merge_loop c rest []))"
proof (induction rest arbitrary: c)
  case Nil
  show ?case by simp
next
  case (Cons a rest)
  show ?case
  proof (cases "seg_speaker c = seg_speaker a")
    case True
    then show ?thesis using Cons.IH by simp
  next
    case False
    obtain c' tl where h: "merge_loop a rest [] = c' # tl" "seg_speaker c' = seg_speaker a"
      using merge_loop_head by blast
    have "merge_loop c (a # rest) [] = c # merge_loop a rest []"
      using False merge_loop_acc[of a rest "[c]"] by simp
    then show ?thesis using Cons.IH[of a] h False by simp
  qed
qed

lemma merge_loop_fixed:
  "distinct_adj (map seg_speaker (c # rest)) \<Longrightarrow> merge_loop c rest [] = c # rest"
proof (induction rest arbitrary: c)
  case Nil
  show ?case by simp
next
  case (Cons a rest)
  then show ?case using merge_loop_acc[of a rest "[c]"] by simp
qed

lemma merge_distinct_adj:
  "distinct_adj (map seg_speaker (merge_consecutive_speaker_segments S))"
  by (cases S) (simp_all add: merge_consecutive_speaker_segments_def merge_loop_distinct_adj)

lemma merge_fixed:
  "distinct_adj (map seg_speaker S) \<Longrightarrow> merge_consecutive_speaker_segments S = S"
  by (cases S) (simp_all add: merge_consecutive_speaker_segments_def merge_loop_fixed)

text \<open>
  Claim C4 (idempotence). Merging the output of the segment merger again changes nothing.
\<close>

theorem merge_idempotent:
  "merge_consecutive_speaker_segments (merge_consecutive_speaker_segments S) =
     merge_consecutive_speaker_segments S"
  by (rule merge_fixed) (rule merge_distinct_adj)

subsection \<open>Token aggregator\<close>

lemma token_loop_spec:
  "(case token_loop thr toks (segs, cur) of (s, c) \<Rightarrow> s @ flush c) =
     segs @ spec_aggregate thr cur toks"
proof (induction toks arbitrary: segs cur)
  case Nil
  show ?case by simp
next
  case (Cons tok toks)
  show ?case
  proof (cases "token_text tok = []")
    case True
    then show ?thesis using Cons.IH[of segs cur] by (simp add: token_text_def)
  next
    case False
    show ?thesis
    proof (cases cur)
      case None
      then show ?thesis
        using False Cons.IH[of segs "Some (open_segment tok)"]
        by (simp add: token_text_def Let_def starts_new_segment_def open_segment_def
              token_speaker_def)
    next
      case (Some c)
      show ?thesis
      proof (cases "starts_new_segment thr cur tok")
        case True
        then show ?thesis
          using False Some Cons.IH[of "segs @ [c]" "Some (open_segment tok)"]
          by (simp add: token_text_def Let_def starts_new_segment_def open_segment_def
                token_speaker_def)
      next
        case nonew: False
        then show ?thesis
          using False Some Cons.IH[of segs "Some (extend_segment c tok)"]
          by (simp add: token_text_def Let_def starts_new_segment_def extend_segment_def
                token_speaker_def)
      qed
    qed
  qed
qed

lemma build_segments_spec: "build_segments thr toks = spec_aggregate thr None toks"
  using token_loop_spec[of thr toks "[]" None]
  by (auto simp: build_segments_def split: prod.splits option.splits)

lemma clean_ascii_letters:
  "sanitize_token_text (ascii ''Hi '') = ascii ''Hi ''"
  "sanitize_token_text (ascii ''there'') = ascii ''there''"
  "sanitize_token_text (ascii ''Hello'') = ascii ''Hello''"
  by (simp_all add: sanitize_token_text_def clean_unicode_def dropped_codepoint_def ascii_def)

lemma scenario_spec:
  "spec_aggregate 0.5 None scenario_tokens =
     [\<lparr>seg_speaker = ascii ''A'', seg_start_time = 0, seg_end_time = 1.5,
       seg_text = ascii ''Hi there''\<rparr>,
      \<lparr>seg_speaker = ascii ''B'', seg_start_time = 2, seg_end_time = 2.5,
       seg_text = ascii ''Hello''\<rparr>]"
  by (simp add: scenario_tokens_def timed_token_def token_text_def get_or_def clean_ascii_letters
        starts_new_segment_def open_segment_def extend_segment_def token_speaker_def
        token_start_def token_end_def unit_fix_def)
     (simp add: ascii_def)

text \<open>
  Claim C5 (token aggregator). The loop of \<open>transcribe_audio\<close> computes what the one-pass
  description computes: empty tokens are skipped, a new segment starts exactly on no open
  segment, a speaker change or a gap above the threshold, and any other token extends the open
  segment's end and appends its text with no separator. On the three tokens of the scenario
  with threshold 0.5 the result is the two segments of the scenario.
\<close>

theorem token_aggregator_refines_spec:
  "build_segments merge_threshold tokens = spec_aggregate merge_threshold None tokens \<and>
   build_segments 0.5 scenario_tokens =
     [\<lparr>seg_speaker = ascii ''A'', seg_start_time = 0, seg_end_time = 1.5,
       seg_text = ascii ''Hi there''\<rparr>,
      \<lparr>seg_speaker = ascii ''B'', seg_start_time = 2, seg_end_time = 2.5,
       seg_text = ascii ''Hello''\<rparr>]"
  by (simp only: build_segments_spec scenario_spec)

theorem token_aggregator_witness:
  "build_segments 0.5 scenario_tokens = spec_aggregate 0.5 None scenario_tokens \<and>
   map seg_text (build_segments 0.5 scenario_tokens) = [ascii ''Hi there'', ascii ''Hello'']"
proof -
  note inst = token_aggregator_refines_spec[of "0.5" scenario_tokens]
  have a: "build_segments 0.5 scenario_tokens = spec_aggregate 0.5 None scenario_tokens"
    using inst by (rule conjunct1)
  have b: "map seg_text (build_segments 0.5 scenario_tokens) = [ascii ''Hi there'', ascii ''Hello'']"
    unfolding inst[THEN conjunct2] by simp
  from a b show ?thesis by (rule conjI)
qed

subsection \<open>Speaker label normalizer\<close>

lemma speaker_rank_append_old:
  "t \<in> set seen \<Longrightarrow> speaker_rank t (seen @ rest) = speaker_rank t seen"
  by (simp add: speaker_rank_def)

lemma takeWhile_append_first:
  "s \<notin> set seen \<Longrightarrow> takeWhile (\<lambda>t. t \<noteq> s) (seen @ [s]) = seen"
  by (induction seen) auto

lemma speaker_rank_append_new:
  "s \<notin> set seen \<Longrightarrow> speaker_rank s (seen @ [s]) = card (set seen) + 1"
  by (simp add: speaker_rank_def takeWhile_append_first)

lemma speaker_map_loop_agrees:
  "map_agrees st seen \<Longrightarrow>
   map_agrees (speaker_map_loop segs st) (seen @ map seg_speaker segs)"
proof (induction segs arbitrary: st seen)
  case Nil
  then show ?case by simp
next
  case (Cons seg segs)
  obtain m c where st: "st = (m, c)" by (cases st)
  let ?s = "seg_speaker seg"
  show ?case
  proof (cases "?s \<in> set seen")
    case True
    have "map_agrees (m, c) (seen @ [?s])"
      using Cons.prems True
      by (auto simp: map_agrees_def st speaker_rank_append_old insert_absorb)
    from Cons.IH[OF this] show ?thesis
      using Cons.prems True by (simp add: st map_agrees_def)
  next
    case False
    have "map_agrees (m(?s \<mapsto> ascii ''Speaker '' @ str_nat c), c + 1) (seen @ [?s])"
      using Cons.prems False
      by (auto simp: map_agrees_def st speaker_rank_append_old speaker_rank_append_new
            speaker_label_def)
    from Cons.IH[OF this] show ?thesis
      using Cons.prems False by (simp add: st map_agrees_def)
  qed
qed

lemma apply_mapping_total:
  "\<forall>seg \<in> set segs. m (seg_speaker seg) = Some (f (seg_speaker seg)) \<Longrightarrow>
   apply_mapping m segs acc = Inr (acc @ map (\<lambda>seg. seg\<lparr>seg_speaker := f (seg_speaker seg)\<rparr>) segs)"
  by (induction segs arbitrary: acc) auto

lemma normalize_speaker_labels_eq:
  "normalize_speaker_labels segs =
     Inr (map (\<lambda>seg. seg\<lparr>seg_speaker :=
                 speaker_label (speaker_rank (seg_speaker seg) (map seg_speaker segs))\<rparr>) segs)"
proof (cases "segs = []")
  case True
  then show ?thesis by (simp add: normalize_speaker_labels_def)
next
  case False
  have "map_agrees (Map.empty, 1) []" by (simp add: map_agrees_def)
  from speaker_map_loop_agrees[OF this, of segs]
  have "\<forall>seg \<in> set segs. fst (speaker_map_loop segs (Map.empty, 1)) (seg_speaker seg) =
          Some (speaker_label (speaker_rank (seg_speaker seg) (map seg_speaker segs)))"
    by (simp add: map_agrees_def)
  from apply_mapping_total[where f = "\<lambda>s. speaker_label (speaker_rank s (map seg_speaker segs))",
        OF this, of "[]"] False
  show ?thesis by (simp add: normalize_speaker_labels_def)
qed

lemma str_nat_nonempty: "str_nat n \<noteq> []"
  by (subst str_nat.simps) simp

lemma str_nat_inj: "str_nat n = str_nat m \<Longrightarrow> n = m"
proof (induction n arbitrary: m rule: str_nat.induct)
  case (1 n)
  show ?case
  proof (cases "n < 10")
    case True
    have "m < 10"
    proof (rule ccontr)
      assume "\<not> m < 10"
      then have "str_nat m = str_nat (m div 10) @ [48 + m mod 10]"
        by (subst str_nat.simps) simp
      moreover have "str_nat n = [48 + n]" using True by (subst str_nat.simps) simp
      ultimately show False using "1.prems" str_nat_nonempty[of "m div 10"] by simp
    qed
    with True "1.prems" show ?thesis
      by (simp add: str_nat.simps[of n] str_nat.simps[of m])
  next
    case False
    have m: "\<not> m < 10"
    proof
      assume "m < 10"
      then have "str_nat m = [48 + m]" by (subst str_nat.simps) simp
      moreover have "str_nat n = str_nat (n div 10) @ [48 + n mod 10]"
        using False by (subst str_nat.simps) simp
      ultimately show False using "1.prems" str_nat_nonempty[of "n div 10"] by simp
    qed
    from False m "1.prems"
    have "str_nat (n div 10) = str_nat (m div 10)" "n mod 10 = m mod 10"
      by (simp_all add: str_nat.simps[of n] str_nat.simps[of m])
    with "1.IH"[OF False] have "n div 10 = m div 10" "n mod 10 = m mod 10" by simp_all
    then show ?thesis by (metis div_mult_mod_eq)
  qed
qed

lemma takeWhile_neq_subset:
  "a \<in> set (takeWhile (\<lambda>y. y \<noteq> b) xs) \<Longrightarrow>
   set (takeWhile (\<lambda>y. y \<noteq> a) xs) \<subseteq> set (takeWhile (\<lambda>y. y \<noteq> b) xs)"
  by (induction xs) (auto split: if_splits)

lemma takeWhile_neq_card_less:
  assumes "a \<in> set (takeWhile (\<lambda>y. y \<noteq> b) xs)"
  shows "card (set (takeWhile (\<lambda>y. y \<noteq> a) xs)) < card (set (takeWhile (\<lambda>y. y \<noteq> b) xs))"
proof -
  have "a \<notin> set (takeWhile (\<lambda>y. y \<noteq> a) xs)"
    by (auto dest: set_takeWhileD)
  with assms takeWhile_neq_subset[OF assms]
  have "set (takeWhile (\<lambda>y. y \<noteq> a) xs) \<subset> set (takeWhile (\<lambda>y. y \<noteq> b) xs)"
    by blast
  then show ?thesis by (simp add: psubset_card_mono)
qed

lemma first_of_two:
  "s \<in> set xs \<Longrightarrow> t \<in> set xs \<Longrightarrow> s \<noteq> t \<Longrightarrow>
   s \<in> set (takeWhile (\<lambda>y. y \<noteq> t) xs) \<or> t \<in> set (takeWhile (\<lambda>y. y \<noteq> s) xs)"
  by (induction xs) auto

lemma speaker_rank_inj:
  assumes "s \<in> set xs" "t \<in> set xs" "speaker_rank s xs = speaker_rank t xs"
  shows "s = t"
proof (rule ccontr)
  assume ne: "s \<noteq> t"
  from first_of_two[OF assms(1,2) ne] show False
  proof
    assume "s \<in> set (takeWhile (\<lambda>y. y \<noteq> t) xs)"
    from takeWhile_neq_card_less[OF this] assms(3) show False
      by (simp add: speaker_rank_def)
  next
    assume "t \<in> set (takeWhile (\<lambda>y. y \<noteq> s) xs)"
    from takeWhile_neq_card_less[OF this] assms(3) show False
      by (simp add: speaker_rank_def)
  qed
qed

lemma speaker_label_inj: "speaker_label a = speaker_label b \<Longrightarrow> a = b"
  by (simp add: speaker_label_def str_nat_inj)

lemma scenario_labels:
  "map (\<lambda>seg. seg\<lparr>seg_speaker :=
          speaker_label (speaker_rank (seg_speaker seg) (map seg_speaker scenario_segments))\<rparr>)
     scenario_segments =
   [raw_segment ''Speaker 1'' 0 1 ''a'', raw_segment ''Speaker 1'' 2 3 ''b'',
    raw_segment ''Speaker 2'' 3 4 ''c'', raw_segment ''Speaker 1'' 5 6 ''d'']"
  by (simp add: scenario_segments_def raw_segment_def speaker_rank_def speaker_label_def ascii_def
        str_nat.simps)

text \<open>
  Claim C6 (speaker labels). \<open>normalize_speaker_labels\<close> returns a list of the same length in
  which segment \<open>i\<close> is the input's segment \<open>i\<close> with only the speaker replaced, by
  \<open>Speaker k\<close> where \<open>k\<close> is the rank of the raw speaker by first appearance; two output
  labels are equal exactly when the raw speakers are. Raw speakers S2, S2, S5, S2 become
  Speaker 1, Speaker 1, Speaker 2, Speaker 1.
\<close>

theorem speaker_labels_by_first_appearance:
  "(\<exists>out. normalize_speaker_labels segs = Inr out \<and> length out = length segs \<and>
     (\<forall>i < length segs.
        out ! i = (segs ! i)\<lparr>seg_speaker :=
          speaker_label (speaker_rank (seg_speaker (segs ! i)) (map seg_speaker segs))\<rparr>) \<and>
     (\<forall>i < length segs. \<forall>j < length segs.
        seg_speaker (out ! i) = seg_speaker (out ! j) \<longleftrightarrow>
        seg_speaker (segs ! i) = seg_speaker (segs ! j))) \<and>
   normalize_speaker_labels scenario_segments =
     Inr [raw_segment ''Speaker 1'' 0 1 ''a'', raw_segment ''Speaker 1'' 2 3 ''b'',
          raw_segment ''Speaker 2'' 3 4 ''c'', raw_segment ''Speaker 1'' 5 6 ''d'']"
proof -
  let ?f = "\<lambda>seg. seg\<lparr>seg_speaker :=
                 speaker_label (speaker_rank (seg_speaker seg) (map seg_speaker segs))\<rparr>"
  have inj: "seg_speaker (?f (segs ! i)) = seg_speaker (?f (segs ! j)) \<longleftrightarrow>
        seg_speaker (segs ! i) = seg_speaker (segs ! j)"
    if "i < length segs" "j < length segs" for i j
  proof -
    have mem: "seg_speaker (segs ! i) \<in> set (map seg_speaker segs)"
      "seg_speaker (segs ! j) \<in> set (map seg_speaker segs)"
      using that by simp_all
    have "seg_speaker (segs ! i) = seg_speaker (segs ! j)"
      if "speaker_label (speaker_rank (seg_speaker (segs ! i)) (map seg_speaker segs)) =
          speaker_label (speaker_rank (seg_speaker (segs ! j)) (map seg_speaker segs))"
      using speaker_rank_inj[OF mem speaker_label_inj[OF that]] .
    then show ?thesis by auto
  qed
  have general: "\<exists>out. normalize_speaker_labels segs = Inr out \<and> length out = length segs \<and>
     (\<forall>i < length segs.
        out ! i = (segs ! i)\<lparr>seg_speaker :=
          speaker_label (speaker_rank (seg_speaker (segs ! i)) (map seg_speaker segs))\<rparr>) \<and>
     (\<forall>i < length segs. \<forall>j < length segs.
        seg_speaker (out ! i) = seg_speaker (out ! j) \<longleftrightarrow>
        seg_speaker (segs ! i) = seg_speaker (segs ! j))"
    using inj by (simp add: normalize_speaker_labels_eq)
  have scenario: "normalize_speaker_labels scenario_segments =
     Inr [raw_segment ''Speaker 1'' 0 1 ''a'', raw_segment ''Speaker 1'' 2 3 ''b'',
          raw_segment ''Speaker 2'' 3 4 ''c'', raw_segment ''Speaker 1'' 5 6 ''d'']"
    by (simp only: normalize_speaker_labels_eq scenario_labels)
  from general scenario show ?thesis by (rule conjI)
qed

theorem speaker_labels_witness:
  "\<exists>out. normalize_speaker_labels scenario_segments = Inr out \<and> length out = 4 \<and>
     seg_speaker (out ! 0) = seg_speaker (out ! 3) \<and>
     seg_speaker (out ! 0) \<noteq> seg_speaker (out ! 2)"
proof -
  have len: "length scenario_segments = 4"
    by (simp add: scenario_segments_def)
  have raw: "seg_speaker (scenario_segments ! 0) = seg_speaker (scenario_segments ! 3)"
    "seg_speaker (scenario_segments ! 0) \<noteq> seg_speaker (scenario_segments ! 2)"
    by (simp_all add: scenario_segments_def raw_segment_def ascii_def)
  from speaker_labels_by_first_appearance[of scenario_segments, THEN conjunct1]
  obtain out where
    out: "normalize_speaker_labels scenario_segments = Inr out" "length out = 4"
      "\<forall>i < 4. \<forall>j < 4.
        seg_speaker (out ! i) = seg_speaker (out ! j) \<longleftrightarrow>
        seg_speaker (scenario_segments ! i) = seg_speaker (scenario_segments ! j)"
    unfolding len by blast
  have "seg_speaker (out ! 0) = seg_speaker (out ! 3)"
    "seg_speaker (out ! 0) \<noteq> seg_speaker (out ! 2)"
    using out(3) raw by simp_all
  with out(1,2) show ?thesis by blast
qed

subsection \<open>The whole transcription pipeline\<close>

lemma ascii_nonempty: "s \<noteq> [] \<Longrightarrow> ascii s \<noteq> []"
  by (simp add: ascii_def)

lemma sanitize_words:
  "sanitize_token_text (ascii ''Hi'') = ascii ''Hi''"
  "sanitize_token_text (ascii ''there'') = ascii ''there''"
  "sanitize_text (ascii ''Hi'') = ascii ''Hi''"
  "sanitize_text (ascii ''there'') = ascii ''there''"
  "sanitize_text (ascii ''Hithere'') = ascii ''Hithere''"
  "sanitize_text (py_strip (ascii ''Hi'') @ ascii '' '' @ py_strip (ascii ''there''))
     = ascii ''Hi there''"
  by (simp_all add: sanitize_token_text_def sanitize_text_def clean_unicode_def
        dropped_codepoint_def py_strip_def py_isspace_def ascii_def)

lemma py_round2_small:
  "py_round2 0 = 0" "py_round2 1 = 1" "py_round2 5 = 5" "py_round2 6 = 6"
  by (simp_all add: py_round2_def Let_def)

lemma pause_segments:
  "build_segments 0.5 [timed_token ''A'' ''Hi'' 0 1, timed_token ''A'' ''there'' 5 6] =
     [raw_segment ''A'' 0 1 ''Hi'', raw_segment ''A'' 5 6 ''there'']"
  by (simp add: build_segments_def timed_token_def raw_segment_def get_or_def sanitize_words
        token_start_def token_end_def unit_fix_def Let_def ascii_nonempty)

lemma pause_structured:
  "structure_loop 0 [raw_segment ''A'' 0 1 ''Hi'', raw_segment ''A'' 5 6 ''there''] ([], 0) =
     ([\<lparr>seg_speaker = ascii ''A'', seg_start_time = 0, seg_end_time = 1,
        seg_text = ascii ''Hi'', seg_duration = 1\<rparr>,
       \<lparr>seg_speaker = ascii ''A'', seg_start_time = 5, seg_end_time = 6,
        seg_text = ascii ''there'', seg_duration = 1\<rparr>], 6)"
proof -
  have ne: "ascii ''A'' \<noteq> []" "ascii ''Hi'' \<noteq> []" "ascii ''there'' \<noteq> []"
    by (simp_all add: ascii_def)
  show ?thesis
    by (simp add: raw_segment_def sanitize_words py_round2_small Let_def ne)
qed

lemma pause_merged:
  "merge_consecutive_speaker_segments
     [\<lparr>seg_speaker = ascii ''A'', seg_start_time = 0, seg_end_time = 1,
       seg_text = ascii ''Hi'', seg_duration = 1\<rparr>,
      \<lparr>seg_speaker = ascii ''A'', seg_start_time = 5, seg_end_time = 6,
       seg_text = ascii ''there'', seg_duration = 1\<rparr>] =
     [\<lparr>seg_speaker = ascii ''A'', seg_start_time = 0, seg_end_time = 6,
       seg_text = ascii ''Hi there'', seg_duration = 1::real\<rparr>]"
  by (simp add: merge_consecutive_speaker_segments_def sanitize_words)

lemma pause_normalized:
  "normalize_speaker_labels
     [\<lparr>seg_speaker = ascii ''A'', seg_start_time = 0, seg_end_time = 6,
       seg_text = ascii ''Hi there'', seg_duration = 1::real\<rparr>] =
     Inr [\<lparr>seg_speaker = ascii ''Speaker 1'', seg_start_time = 0, seg_end_time = 6,
           seg_text = ascii ''Hi there'', seg_duration = 1\<rparr>]"
  by (simp add: normalize_speaker_labels_def str_nat.simps) (simp add: ascii_def)

text \<open>
  Claim C7 (duration). The claim: in the final \<open>speaker_segments\<close> every segment's
  \<open>duration\<close> is \<open>end_time - start_time\<close> at two decimals. The structured stage computes it
  so, but \<open>merge_consecutive_speaker_segments\<close> moves \<open>end_time\<close> and keeps the first
  segment's \<open>duration\<close>. Evaluated here on two tokens of one speaker, at 0 to 1 and at 5 to 6
  seconds, with threshold 0.5: the single final segment runs from 0 to 6 and carries duration 1.
\<close>

theorem merged_segment_keeps_stale_duration:
  "transcribe_audio 0.5 True pause_response =
     Inr \<lparr>tr_transcription = ascii ''Hithere'',
          tr_speaker_segments =
            [\<lparr>seg_speaker = ascii ''Speaker 1'', seg_start_time = 0, seg_end_time = 6,
              seg_text = ascii ''Hi there'', seg_duration = 1\<rparr>],
          tr_duration = 6, tr_speaker_count = 1\<rparr> \<and>
   py_round2 (6 - 0) = 6"
proof -
  have toks: "get_or (tj_tokens pause_response) [] =
      [timed_token ''A'' ''Hi'' 0 1, timed_token ''A'' ''there'' 5 6]"
    "get_or (tj_text pause_response) [] = []"
    by (simp_all add: pause_response_def get_or_def)
  have texts: "get_or (tok_text (timed_token ''A'' ''Hi'' 0 1)) [] = ascii ''Hi''"
    "get_or (tok_text (timed_token ''A'' ''there'' 5 6)) [] = ascii ''there''"
    by (simp_all add: timed_token_def get_or_def)
  have ne: "ascii ''Hi'' \<noteq> []" "ascii ''there'' \<noteq> []"
    by (simp_all add: ascii_def)
  have cat: "ascii ''Hi'' @ ascii ''there'' = ascii ''Hithere''"
    by (simp add: ascii_def)
  have run: "transcribe_audio 0.5 True pause_response =
     Inr \<lparr>tr_transcription = sanitize_text (ascii ''Hi'' @ ascii ''there''),
          tr_speaker_segments =
            [\<lparr>seg_speaker = ascii ''Speaker 1'', seg_start_time = 0, seg_end_time = 6,
              seg_text = ascii ''Hi there'', seg_duration = 1\<rparr>],
          tr_duration = py_round2 6,
          tr_speaker_count = card (set (map seg_speaker
            [\<lparr>seg_speaker = ascii ''Speaker 1'', seg_start_time = 0, seg_end_time = 6,
              seg_text = ascii ''Hi there'', seg_duration = 1::real\<rparr>]))\<rparr>"
    unfolding transcribe_audio_def toks Let_def pause_segments pause_structured
    by (simp only: prod.case pause_merged pause_normalized if_True sum.case)
       (simp add: texts ne sanitize_words)
  show ?thesis
    unfolding run by (simp add: cat sanitize_words py_round2_small)
qed

text \<open>
  Claim C9 (upstream failures). A transcript response with no tokens (the key absent or the
  list empty) makes \<open>transcribe_audio\<close> raise \<open>ValueError\<close>; a transcript that is missing,
  empty or only white space makes \<open>score_transcript_main\<close> raise \<open>ValueError\<close>. In both
  cases the call returns an error and no result.
\<close>

theorem upstream_failure_aborts:
  "(tj_tokens response = None \<or> tj_tokens response = Some [] \<longrightarrow>
      transcribe_audio merge_threshold normalize_speakers response =
        Inl (ValueError
          ''Transcription failed: Soniox transcript response did not contain any tokens'')) \<and>
   (td_transcription transcript_data = None \<or> td_transcription transcript_data = Some [] \<or>
    (\<exists>t. td_transcription transcript_data = Some t \<and> py_strip t = []) \<longrightarrow>
      score_transcript_main model loaded_rubric llm transcript_data =
        Inl (ValueError ''Transcript is empty or missing''))"
  by (auto simp: transcribe_audio_def score_transcript_main_def reraise_def get_or_def Let_def)

theorem upstream_failure_witness:
  "transcribe_audio 0.5 True \<lparr>tj_tokens = Some [], tj_text = Some (ascii ''Hello'')\<rparr> =
     Inl (ValueError
       ''Transcription failed: Soniox transcript response did not contain any tokens'') \<and>
   score_transcript_main ''gpt'' (Inr example_rubric) (\<lambda>t r s. Inr (example_payload 5 3))
     \<lparr>td_transcription = Some (ascii ''  ''), td_speaker_segments = (None :: segment list option)\<rparr> =
     Inl (ValueError ''Transcript is empty or missing'')"
proof -
  have a: "tj_tokens \<lparr>tj_tokens = Some [], tj_text = Some (ascii ''Hello'')\<rparr> = Some []"
    by simp
  have b: "\<exists>t. td_transcription
      \<lparr>td_transcription = Some (ascii ''  ''), td_speaker_segments = (None :: segment list option)\<rparr>
        = Some t \<and> py_strip t = []"
    by (simp add: py_strip_def py_isspace_def ascii_def)
  show ?thesis
    using upstream_failure_aborts[where response = "\<lparr>tj_tokens = Some [], tj_text = Some (ascii ''Hello'')\<rparr>"
        and transcript_data = "\<lparr>td_transcription = Some (ascii ''  ''),
          td_speaker_segments = (None :: segment list option)\<rparr>"
        and merge_threshold = "0.5" and normalize_speakers = True and model = "''gpt''"
        and loaded_rubric = "Inr example_rubric"
        and llm = "\<lambda>t r s. Inr (example_payload 5 3)"] a b
    by blast
qed

end
